theory Spec2Isabelle
  imports Main "HOL-Library.Word"
begin

section \<open>Strings as the command path uses them\<close>

text \<open>
  The plugin is one TypeScript file, \<^verbatim>\<open>src/main.ts\<close>. A JavaScript string is a
  sequence of 16-bit code units, and is modelled as the list of them. \<open>js\<close> writes
  the string of a literal of the source, one code unit for each of its characters.
  The four string operations that \<^verbatim>\<open>handleCommand\<close> calls are \<^verbatim>\<open>includes\<close>,
  \<^verbatim>\<open>replace\<close> with the regular expression \<^verbatim>\<open>/.*!\[\[(.*?)\]\].*/\<close>, \<^verbatim>\<open>split\<close> and
  \<^verbatim>\<open>pop\<close>.
\<close>

type_synonym jsstring = "16 word list"

definition cu :: "char \<Rightarrow> 16 word" where
  "cu c = of_char c"

definition js :: "string \<Rightarrow> jsstring" where
  "js s = map cu s"

fun startsWith :: "jsstring \<Rightarrow> jsstring \<Rightarrow> bool" where
  "startsWith s [] = True"
| "startsWith [] (p # ps) = False"
| "startsWith (c # cs) (p # ps) = (c = p \<and> startsWith cs ps)"

text \<open>\<^verbatim>\<open>s.includes(p)\<close>: \<open>p\<close> occurs in \<open>s\<close> at some position.\<close>

fun includes_js :: "jsstring \<Rightarrow> jsstring \<Rightarrow> bool" where
  "includes_js [] p = startsWith [] p"
| "includes_js (c # cs) p = (startsWith (c # cs) p \<or> includes_js cs p)"

text \<open>
  \<^verbatim>\<open>s.split(sep)\<close> for a one-character separator. The result is never empty:
  the empty string splits into one empty piece.
\<close>

fun split_js :: "16 word \<Rightarrow> jsstring \<Rightarrow> jsstring list" where
  "split_js sep [] = [[]]"
| "split_js sep (c # cs) =
     (if c = sep then [] # split_js sep cs
      else (case split_js sep cs of
              [] \<Rightarrow> [[c]]
            | w # ws \<Rightarrow> (c # w) # ws))"

text \<open>
  Without the \<^verbatim>\<open>s\<close> flag the dot of a regular expression matches every code unit
  but the four line terminators of ECMAScript: line feed, carriage return, the line
  separator U+2028 and the paragraph separator U+2029.
\<close>

definition isLineTerminator :: "16 word \<Rightarrow> bool" where
  "isLineTerminator c = (c = 0x000A \<or> c = 0x000D \<or> c = 0x2028 \<or> c = 0x2029)"

definition dot :: "16 word \<Rightarrow> bool" where
  "dot c = (\<not> isLineTerminator c)"

text \<open>
  The tail \<^verbatim>\<open>(.*?)\]\].*\<close> of the expression, run on the text that follows a
  \<^verbatim>\<open>![[\<close>. The lazy group grows one code unit at a time and stops at the first
  position where \<^verbatim>\<open>]]\<close> follows; the closing \<^verbatim>\<open>.*\<close> then takes every code unit up
  to the next line terminator, and never fails. The result is the group and the text
  the match leaves over.
\<close>

fun lazyGroup :: "jsstring \<Rightarrow> (jsstring \<times> jsstring) option" where
  "lazyGroup [] = None"
| "lazyGroup (c # cs) =
     (if startsWith (c # cs) (js '']]'') then Some ([], dropWhile dot (drop 2 (c # cs)))
      else if dot c then
        (case lazyGroup cs of
           None \<Rightarrow> None
         | Some (g, r) \<Rightarrow> Some (c # g, r))
      else None)"

text \<open>The part \<^verbatim>\<open>!\[\[(.*?)\]\].*\<close>, tried at the head of the text.\<close>

definition embedHere :: "jsstring \<Rightarrow> (jsstring \<times> jsstring) option" where
  "embedHere s = (if startsWith s (js ''![['') then lazyGroup (drop 3 s) else None)"

text \<open>
  The whole expression, tried at the head of the text. The leading \<^verbatim>\<open>.*\<close> is
  greedy: it first takes one more code unit and lets the rest of the expression run
  behind it, and only when that fails does it stop where it is.
\<close>

fun matchAt :: "jsstring \<Rightarrow> (jsstring \<times> jsstring) option" where
  "matchAt [] = embedHere []"
| "matchAt (c # cs) =
     (if dot c then
        (case matchAt cs of
           Some m \<Rightarrow> Some m
         | None \<Rightarrow> embedHere (c # cs))
      else embedHere (c # cs))"

text \<open>
  \<^verbatim>\<open>line.replace(/.*!\[\[(.*?)\]\].*/, '$1')\<close>: the expression has no \<^verbatim>\<open>g\<close> flag, so
  the leftmost match alone is replaced, by its group. The start positions are tried
  from left to right; the text before the match and the text behind it stay. With no
  match the string comes back as it is.
\<close>

fun replaceEmbed :: "jsstring \<Rightarrow> jsstring" where
  "replaceEmbed [] = (case matchAt [] of Some (g, r) \<Rightarrow> g @ r | None \<Rightarrow> [])"
| "replaceEmbed (c # cs) =
     (case matchAt (c # cs) of
        Some (g, r) \<Rightarrow> g @ r
      | None \<Rightarrow> c # replaceEmbed cs)"

section \<open>The host and the browser\<close>

text \<open>
  A \<^verbatim>\<open>Blob\<close> is its declared content type and its bytes; an \<^verbatim>\<open>HTMLImageElement\<close>
  is its \<^verbatim>\<open>src\<close>; a \<^verbatim>\<open>TFile\<close> of the vault is its name and its path. The target of
  an input event is an image element or something else.
\<close>

record blob =
  blob_type :: jsstring
  blob_bytes :: "nat list"

record image =
  src :: jsstring

datatype element = Img image | Other

record tfile =
  file_name :: jsstring
  file_path :: jsstring

text \<open>A thrown \<^verbatim>\<open>Error\<close>, or the reason of a rejected promise, with its message.\<close>

datatype error = Error jsstring

text \<open>
  Everything the plugin asks of its surroundings is a field of the environment, so
  that each answer the host or the browser can give is an input of the model:
  \<^item> \<open>getResourcePath\<close>: \<^verbatim>\<open>app.vault.adapter.getResourcePath(path)\<close>;
  \<^item> \<open>fetch\<close>: \<^verbatim>\<open>await fetch(url)\<close> followed by \<^verbatim>\<open>await response.blob()\<close>, rejected
    (\<open>Inl\<close>) or resolved to a blob;
  \<^item> \<open>clipboardWrite\<close>: whether \<^verbatim>\<open>navigator.clipboard.write\<close> of one
    \<^verbatim>\<open>ClipboardItem\<close> holding the blob under its own type goes through;
  \<^item> \<open>createObjectURL\<close>: the URL that \<^verbatim>\<open>URL.createObjectURL(blob)\<close> hands out;
  \<^item> \<open>jimpToPng\<close>: \<^verbatim>\<open>await Jimp.read(url)\<close> followed by
    \<^verbatim>\<open>await image.getBuffer("image/png")\<close>, rejected or resolved to the buffer;
  \<^item> \<open>imageLoad\<close>: an \<^verbatim>\<open>Image\<close> given the URL as its source fires \<^verbatim>\<open>onerror\<close>
    (\<open>None\<close>) or \<^verbatim>\<open>onload\<close>, and then has a width and a height;
  \<^item> \<open>getContext\<close>: whether \<^verbatim>\<open>canvas.getContext('2d')\<close> gives a context;
  \<^item> \<open>toBlob\<close>: \<^verbatim>\<open>canvas.toBlob(callback, 'image/png')\<close> for the canvas of the
    given width and height drawn from the image of the given URL: it throws, or it
    calls back with \<^verbatim>\<open>null\<close> (\<open>None\<close>) or with the PNG encoding of the canvas;
  \<^item> \<open>hasFocus\<close>: the answer of the \<open>n\<close>-th call of \<^verbatim>\<open>document.hasFocus()\<close> within
    one run of the menu handler, counted from 0;
  \<^item> \<open>windowOpen\<close>: whether \<^verbatim>\<open>window.open("obsidian://open", "_self")\<close> returns a
    window.
\<close>

record env =
  getResourcePath :: "jsstring \<Rightarrow> jsstring"
  fetch :: "jsstring \<Rightarrow> error + blob"
  clipboardWrite :: "blob \<Rightarrow> bool"
  createObjectURL :: "blob \<Rightarrow> jsstring"
  jimpToPng :: "jsstring \<Rightarrow> error + nat list"
  imageLoad :: "jsstring \<Rightarrow> (nat \<times> nat) option"
  getContext :: bool
  toBlob :: "jsstring \<Rightarrow> nat \<Rightarrow> nat \<Rightarrow> error + nat list option"
  hasFocus :: "nat \<Rightarrow> bool"
  windowOpen :: bool

text \<open>
  What a handler does to its surroundings is the list of its effects, in the order
  of the statements that cause them. \<open>ClipboardWrite b\<close> is one call of
  \<^verbatim>\<open>navigator.clipboard.write\<close> with the blob \<open>b\<close>, whether or not it goes through.
\<close>

datatype event =
    Notice jsstring
  | Fetch jsstring
  | ClipboardWrite blob
  | UrlCreated jsstring
  | UrlRevoked jsstring
  | Canvas nat nat
  | DrawImage nat nat
  | WindowOpen

text \<open>
  An \<^verbatim>\<open>async\<close> method gives its effects and how its promise settles: \<open>None\<close> when
  it resolves, \<open>Some e\<close> when it rejects with \<open>e\<close>.
\<close>

type_synonym outcome = "event list \<times> error option"

text \<open>The fields of the plugin object (\<^verbatim>\<open>settings\<close> has the one field).\<close>

record plugin =
  touchTime :: nat
  targetImage :: "image option"
  svgToPngScale :: nat

section \<open>The pipeline\<close>

text \<open>
  \<^verbatim>\<open>copyPngToClipboard\<close> (lines 203 to 215): the write and both notices are inside
  one \<^verbatim>\<open>try\<close>, so the promise always resolves.
\<close>

definition copyPngToClipboard :: "env \<Rightarrow> blob \<Rightarrow> outcome" where
  "copyPngToClipboard e imageBlob =
     (if clipboardWrite e imageBlob
      then ([ClipboardWrite imageBlob, Notice (js ''Image copied to clipboard!'')], None)
      else ([ClipboardWrite imageBlob, Notice (js ''Failed to copy...'')], None))"

text \<open>
  \<^verbatim>\<open>copyNonPngToClipboard\<close> (lines 267 to 272) has no \<^verbatim>\<open>try\<close>: a rejection of
  either \<^verbatim>\<open>await\<close> rejects its promise. The last call is not awaited; it cannot
  reject.
\<close>

definition copyNonPngToClipboard :: "env \<Rightarrow> blob \<Rightarrow> outcome" where
  "copyNonPngToClipboard e imageBlob =
     (let url = createObjectURL e imageBlob in
      case jimpToPng e url of
        Inl err \<Rightarrow> ([UrlCreated url], Some err)
      | Inr buffer \<Rightarrow>
          (UrlCreated url #
             fst (copyPngToClipboard e \<lparr>blob_type = js ''image/png'', blob_bytes = buffer\<rparr>),
           None))"

text \<open>
  \<^verbatim>\<open>(img.width || 300) * scale\<close>: the width and the height of an image element are
  non-negative integers, and \<^verbatim>\<open>||\<close> takes its right operand when the left one is 0.
  The scale is the integer the settings slider stores (limits 1 and 10, step 1).
\<close>

definition canvasSide :: "nat \<Rightarrow> nat \<Rightarrow> nat" where
  "canvasSide d scale = (if d = 0 then 300 else d) * scale"

text \<open>
  \<^verbatim>\<open>copySvgToClipboard\<close> (lines 217 to 265). Everything up to the call of
  \<^verbatim>\<open>canvas.toBlob\<close> is inside one \<^verbatim>\<open>try\<close> whose handler shows a notice, so the
  promise always resolves. The callback of \<^verbatim>\<open>toBlob\<close> runs later; its effects are
  listed after those of the method's body. The blob that the browser hands to the
  callback was asked for as \<^verbatim>\<open>'image/png'\<close> and carries that type.
\<close>

definition copySvgToClipboard :: "env \<Rightarrow> nat \<Rightarrow> blob \<Rightarrow> outcome" where
  "copySvgToClipboard e scale imageBlob =
     (let url = createObjectURL e imageBlob in
      case imageLoad e url of
        None \<Rightarrow>
          ([UrlCreated url,
            Notice (js ''Failed to load SVG image for conversion.''),
            Notice (js ''Error during SVG to PNG conversion.'')], None)
      | Some (width, height) \<Rightarrow>
          (let w = canvasSide width scale; h = canvasSide height scale in
           if \<not> getContext e
           then ([UrlCreated url, Canvas w h,
                  Notice (js ''Could not create canvas context.'')], None)
           else
             (case toBlob e url w h of
                Inl err \<Rightarrow>
                  ([UrlCreated url, Canvas w h, DrawImage w h,
                    Notice (js ''Error during SVG to PNG conversion.'')], None)
              | Inr None \<Rightarrow>
                  ([UrlCreated url, Canvas w h, DrawImage w h,
                    Notice (js ''Failed to convert SVG to PNG.''), UrlRevoked url], None)
              | Inr (Some png) \<Rightarrow>
                  ([UrlCreated url, Canvas w h, DrawImage w h] @
                   fst (copyPngToClipboard e \<lparr>blob_type = js ''image/png'', blob_bytes = png\<rparr>) @
                   [UrlRevoked url], None))))"

text \<open>
  \<^verbatim>\<open>copyImageToClipboard\<close> (lines 188 to 201). The first argument is the target of
  the event when an event is given, the second the image passed beside it.
\<close>

definition copyImageToClipboard :: "env \<Rightarrow> nat \<Rightarrow> image option \<Rightarrow> image option \<Rightarrow> outcome" where
  "copyImageToClipboard e scale evt target_image =
     (case (case evt of Some t \<Rightarrow> Some t | None \<Rightarrow> target_image) of
        None \<Rightarrow> ([], None)
      | Some target \<Rightarrow>
          (case fetch e (src target) of
             Inl err \<Rightarrow> ([Fetch (src target)], Some err)
           | Inr imageBlob \<Rightarrow>
               (let r = (if blob_type imageBlob = js ''image/png''
                         then copyPngToClipboard e imageBlob
                         else if blob_type imageBlob = js ''image/svg+xml''
                         then copySvgToClipboard e scale imageBlob
                         else copyNonPngToClipboard e imageBlob)
                in (Fetch (src target) # fst r, snd r))))"

section \<open>The command\<close>

text \<open>
  The value of the variable \<^verbatim>\<open>fileNane\<close> after lines 79 to 86 of \<^verbatim>\<open>handleCommand\<close>:
  the replacement, cut at the first \<^verbatim>\<open>|\<close> when it has one. \<open>split_js\<close> never gives
  the empty list, so the piece of index 0 is the head.
\<close>

definition fileNane :: "jsstring \<Rightarrow> jsstring" where
  "fileNane line =
     (let f = replaceEmbed line in
      if includes_js f (js ''|'') then hd (split_js (cu CHR ''|'') f) else f)"

text \<open>\<^verbatim>\<open>fileNane.split('.').pop()\<close>: the last piece.\<close>

definition extension :: "jsstring \<Rightarrow> jsstring" where
  "extension f = last (split_js (cu CHR ''.'') f)"

definition supported :: "jsstring list" where
  "supported = [js ''bmp'', js ''gif'', js ''jpeg'', js ''jpg'', js ''png'', js ''tiff'']"

definition notAnImage :: event where
  "notAnImage = Notice (js ''Not an image file or not supported...'')"

text \<open>
  The callback that \<^verbatim>\<open>forEach\<close> runs on one file of the vault (lines 97 to 110).
  It is \<^verbatim>\<open>async\<close> and has no \<^verbatim>\<open>try\<close>; \<^verbatim>\<open>forEach\<close> drops the promise it returns.
  Its first \<^verbatim>\<open>await\<close> is that of \<^verbatim>\<open>fetch(url)\<close> in line 101. \<open>callbackStart\<close> is what
  the callback does before it gives control back there, the notice and the call of
  \<^verbatim>\<open>fetch\<close>; \<open>callbackRest\<close> is what it does once the fetch has settled.
\<close>

definition callbackStart :: "env \<Rightarrow> jsstring \<Rightarrow> tfile \<Rightarrow> event list" where
  "callbackStart e name file =
     (if file_name file = name then
        (let url = getResourcePath e (file_path file) in
         [Notice (js ''Copying the image...''), Fetch url])
      else [])"

definition callbackRest :: "env \<Rightarrow> jsstring \<Rightarrow> tfile \<Rightarrow> outcome" where
  "callbackRest e name file =
     (if file_name file = name then
        (let url = getResourcePath e (file_path file) in
         case fetch e url of
           Inl err \<Rightarrow> ([], Some err)
         | Inr imageBlob \<Rightarrow>
             (if blob_type imageBlob = js ''image/png''
              then copyPngToClipboard e imageBlob
              else copyNonPngToClipboard e imageBlob))
      else ([], None))"

text \<open>One run of the callback, from its call to the end.\<close>

definition commandCallback :: "env \<Rightarrow> jsstring \<Rightarrow> tfile \<Rightarrow> outcome" where
  "commandCallback e name file =
     (callbackStart e name file @ fst (callbackRest e name file),
      snd (callbackRest e name file))"

text \<open>
  A handler that the host calls gives its effects and the rejections that nothing
  handles.

  \<^verbatim>\<open>forEach\<close> calls the callback on the files in turn, and each call comes back at
  its first \<^verbatim>\<open>await\<close>: the starts of all callbacks come first, in the order of the
  files. The rests run afterwards, each when its own awaited steps settle. They are
  listed in the order of the files, each in one piece, which is the order they take
  when the steps of an earlier file settle before those of a later one; another
  schedule interleaves the rests of different files and keeps the order within each.
\<close>

type_synonym handled = "event list \<times> error list"

fun rejections :: "error option list \<Rightarrow> error list" where
  "rejections [] = []"
| "rejections (None # rs) = rejections rs"
| "rejections (Some err # rs) = err # rejections rs"

definition forEachFile :: "env \<Rightarrow> jsstring \<Rightarrow> tfile list \<Rightarrow> handled" where
  "forEachFile e name files =
     (concat (map (callbackStart e name) files) @
      concat (map (\<lambda>file. fst (callbackRest e name file)) files),
      rejections (map (\<lambda>file. snd (callbackRest e name file)) files))"

text \<open>
  \<^verbatim>\<open>handleCommand\<close> (lines 73 to 111), given the line of the cursor and the files
  of the vault.
\<close>

definition handleCommand :: "env \<Rightarrow> jsstring \<Rightarrow> tfile list \<Rightarrow> handled" where
  "handleCommand e line files =
     (if \<not> includes_js line (js ''![['') then ([notAnImage], [])
      else if replaceEmbed line = [] then ([notAnImage], [])
      else if extension (fileNane line) = [] then ([notAnImage], [])
      else if extension (fileNane line) \<notin> set supported then ([notAnImage], [])
      else forEachFile e (fileNane line) files)"

section \<open>The menu entry\<close>

text \<open>\<^verbatim>\<open>trySetFocus\<close> (lines 162 to 171) makes the call of index 0 of \<open>hasFocus\<close>.\<close>

definition trySetFocus :: "env \<Rightarrow> outcome" where
  "trySetFocus e =
     (if \<not> hasFocus e 0 then
        (if windowOpen e then ([WindowOpen], None)
         else ([WindowOpen], Some (Error (js ''Failed to focus Obsidian app.''))))
      else ([], None))"

text \<open>
  The loop of \<^verbatim>\<open>waitForFocus\<close> (lines 176 to 179): \<open>q\<close> is the index of the next call
  of \<open>hasFocus\<close>, which the condition makes first, and \<open>timeElapsed\<close> the counter. The
  result is the index of the call that follows the loop.
\<close>

function waitLoop :: "env \<Rightarrow> nat \<Rightarrow> nat \<Rightarrow> nat" where
  "waitLoop e q timeElapsed =
     (if \<not> hasFocus e q \<and> timeElapsed < 2000
      then waitLoop e (Suc q) (timeElapsed + 50)
      else Suc q)"
  by pat_completeness auto
termination
  by (relation "measure (\<lambda>(e, q, timeElapsed). 2000 - timeElapsed)") auto

definition waitForFocus :: "env \<Rightarrow> nat \<Rightarrow> outcome" where
  "waitForFocus e q =
     (if \<not> hasFocus e (waitLoop e q 0)
      then ([], Some (Error (js ''Cannot copy image to clipboard without Obsidian app focused.'')))
      else ([], None))"

text \<open>
  \<^verbatim>\<open>handleMenuOption\<close> (lines 114 to 123): the three awaited calls are inside one
  \<^verbatim>\<open>try\<close>, whose handler shows the message of what it caught.
\<close>

definition catchNotice :: "event list \<Rightarrow> error \<Rightarrow> handled" where
  "catchNotice tr err = (case err of Error message \<Rightarrow> (tr @ [Notice message], []))"

definition handleMenuOption :: "env \<Rightarrow> plugin \<Rightarrow> handled" where
  "handleMenuOption e p =
     (let t0 = [Notice (js ''Copying the image...'')] in
      case trySetFocus e of
        (t1, Some err) \<Rightarrow> catchNotice (t0 @ t1) err
      | (t1, None) \<Rightarrow>
          (case waitForFocus e 1 of
             (t2, Some err) \<Rightarrow> catchNotice (t0 @ t1 @ t2) err
           | (t2, None) \<Rightarrow>
               (case copyImageToClipboard e (svgToPngScale p) None (targetImage p) of
                  (t3, Some err) \<Rightarrow> catchNotice (t0 @ t1 @ t2 @ t3) err
                | (t3, None) \<Rightarrow> (t0 @ t1 @ t2 @ t3, []))))"

section \<open>The gestures\<close>

text \<open>\<^verbatim>\<open>isImage\<close> (lines 155 to 160).\<close>

fun isImage :: "element \<Rightarrow> bool" where
  "isImage (Img i) = True"
| "isImage Other = False"

text \<open>
  \<^verbatim>\<open>handleTouchStart\<close> (lines 125 to 136) stores the time of the clock and asks for
  the check one second later; \<open>touchCheck\<close> is that check, the function handed to
  \<^verbatim>\<open>setTimeout\<close>, with the image the touch began on. The check is \<^verbatim>\<open>async\<close> and has
  no \<^verbatim>\<open>try\<close>.
\<close>

definition handleTouchStart :: "plugin \<Rightarrow> element \<Rightarrow> nat \<Rightarrow> plugin" where
  "handleTouchStart p evt now = (if isImage evt then p\<lparr>touchTime := now\<rparr> else p)"

definition touchCheck :: "env \<Rightarrow> plugin \<Rightarrow> image \<Rightarrow> handled" where
  "touchCheck e p evt =
     (if touchTime p \<noteq> 0 then
        (case copyImageToClipboard e (svgToPngScale p) (Some evt) None of
           (t, None) \<Rightarrow> (Notice (js ''Copying the image...'') # t, [])
         | (t, Some err) \<Rightarrow> (Notice (js ''Copying the image...'') # t, [err]))
      else ([], []))"

text \<open>\<^verbatim>\<open>handleTouchMove\<close> (lines 137 to 141).\<close>

definition handleTouchMove :: "plugin \<Rightarrow> element \<Rightarrow> plugin" where
  "handleTouchMove p evt = (if isImage evt then p\<lparr>touchTime := 0\<rparr> else p)"

text \<open>\<^verbatim>\<open>handleContextMenu\<close> (lines 143 to 149).\<close>

fun handleContextMenu :: "plugin \<Rightarrow> element \<Rightarrow> plugin" where
  "handleContextMenu p (Img i) = p\<lparr>targetImage := Some i\<rparr>"
| "handleContextMenu p Other =
     (if targetImage p \<noteq> None then p\<lparr>targetImage := None\<rparr> else p)"

text \<open>
  What the host can ask of the plugin after \<^verbatim>\<open>onload\<close>: a touch begins at a time of
  the clock, a touch moves, the check that a touch on an image asked for comes due,
  the context menu opens on an element, the menu entry is clicked, the command runs
  on a line with the vault's files. One step gives the plugin's fields afterwards,
  the effects and the rejections nothing handled.
\<close>

datatype input =
    TouchStart element nat
  | TouchMove element
  | Timeout image
  | ContextMenu element
  | MenuClick
  | Command jsstring "tfile list"

fun step :: "env \<Rightarrow> plugin \<Rightarrow> input \<Rightarrow> plugin \<times> handled" where
  "step e p (TouchStart evt now) = (handleTouchStart p evt now, ([], []))"
| "step e p (TouchMove evt) = (handleTouchMove p evt, ([], []))"
| "step e p (Timeout evt) = (p, touchCheck e p evt)"
| "step e p (ContextMenu evt) = (handleContextMenu p evt, ([], []))"
| "step e p MenuClick = (p, handleMenuOption e p)"
| "step e p (Command line files) = (p, handleCommand e line files)"

text \<open>A sequence of inputs, from the left: the fields at the end and all effects.\<close>

fun run :: "env \<Rightarrow> plugin \<Rightarrow> input list \<Rightarrow> plugin \<times> handled" where
  "run e p [] = (p, ([], []))"
| "run e p (i # rest) =
     (case step e p i of
        (p', (t, r)) \<Rightarrow>
          (case run e p' rest of
             (p'', (t', r')) \<Rightarrow> (p'', (t @ t', r @ r'))))"

definition effects :: "plugin \<times> handled \<Rightarrow> event list" where
  "effects x = fst (snd x)"

definition unhandled :: "plugin \<times> handled \<Rightarrow> error list" where
  "unhandled x = snd (snd x)"

section \<open>Reading a trace\<close>

text \<open>The blobs handed to the clipboard, and the canvases set up, in order.\<close>

fun clipboardWrites :: "event list \<Rightarrow> blob list" where
  "clipboardWrites [] = []"
| "clipboardWrites (ClipboardWrite b # t) = b # clipboardWrites t"
| "clipboardWrites (x # t) = clipboardWrites t"

fun canvases :: "event list \<Rightarrow> (nat \<times> nat) list" where
  "canvases [] = []"
| "canvases (Canvas w h # t) = (w, h) # canvases t"
| "canvases (x # t) = canvases t"

text \<open>A touch that begins on an image element.\<close>

fun touchesImage :: "input \<Rightarrow> bool" where
  "touchesImage (TouchStart evt now) = isImage evt"
| "touchesImage x = False"

section \<open>Embeds, as the specification words them\<close>

text \<open>
  The specification speaks of the embed pattern \<^verbatim>\<open>![[<name>]]\<close> of a line. The two
  definitions below say what that is without the regular expression of the code, so
  that the code can be compared with it. An embed begins wherever \<^verbatim>\<open>![[\<close> stands
  and a \<^verbatim>\<open>]]\<close> follows; its text runs up to the first \<^verbatim>\<open>]]\<close>. \<open>embeds\<close> lists the
  texts of the embeds of a line from left to right.

  The editor cuts the document into lines at line feeds and carriage returns, so
  the line it hands over holds neither; it may hold U+2028 or U+2029. \<open>singleLine\<close>
  says that a string holds none of the four line terminators.
\<close>

definition singleLine :: "jsstring \<Rightarrow> bool" where
  "singleLine s = list_all dot s"

fun upToClose :: "jsstring \<Rightarrow> jsstring option" where
  "upToClose [] = None"
| "upToClose (c # cs) =
     (if startsWith (c # cs) (js '']]'') then Some []
      else (case upToClose cs of None \<Rightarrow> None | Some b \<Rightarrow> Some (c # b)))"

definition embedAt :: "jsstring \<Rightarrow> jsstring option" where
  "embedAt s = (if startsWith s (js ''![['') then upToClose (drop 3 s) else None)"

fun embeds :: "jsstring \<Rightarrow> jsstring list" where
  "embeds [] = []"
| "embeds (c # cs) =
     (case embedAt (c # cs) of
        None \<Rightarrow> embeds cs
      | Some b \<Rightarrow> b # embeds cs)"

section \<open>A browser and a vault to run the handlers on\<close>

definition pngBlob :: blob where
  "pngBlob = \<lparr>blob_type = js ''image/png'', blob_bytes = [137, 80, 78, 71]\<rparr>"

definition jpegBlob :: blob where
  "jpegBlob = \<lparr>blob_type = js ''image/jpeg'', blob_bytes = [255, 216, 255]\<rparr>"

definition svgBlob :: blob where
  "svgBlob = \<lparr>blob_type = js ''image/svg+xml'', blob_bytes = [60, 115, 118, 103]\<rparr>"

text \<open>
  A browser in which everything works: three resources can be fetched, the JPEG
  decodes, the SVG loads with no intrinsic size, the window has the focus.
\<close>

definition browser :: env where
  "browser =
     \<lparr>getResourcePath = (\<lambda>path. (js ''app://'') @ path),
      fetch = (\<lambda>url.
        if url = js ''app://a.png'' then Inr pngBlob
        else if url = js ''app://b.jpg'' then Inr jpegBlob
        else if url = js ''app://d.svg'' then Inr svgBlob
        else Inl (Error (js ''Failed to fetch''))),
      clipboardWrite = (\<lambda>b. True),
      createObjectURL = (\<lambda>b. (js ''blob:'') @ blob_type b),
      jimpToPng = (\<lambda>url.
        if url = js ''blob:image/jpeg'' then Inr [137, 80, 78, 71, 1]
        else Inl (Error (js ''Could not find MIME for Buffer''))),
      imageLoad = (\<lambda>url. if url = js ''blob:image/svg+xml'' then Some (0, 0) else None),
      getContext = True,
      toBlob = (\<lambda>url w h. Inr (Some [137, 80, 78, 71, 2])),
      hasFocus = (\<lambda>n. True),
      windowOpen = True\<rparr>"

definition vault :: "tfile list" where
  "vault =
     [\<lparr>file_name = js ''a.png'', file_path = js ''a.png''\<rparr>,
      \<lparr>file_name = js ''b.jpg'', file_path = js ''b.jpg''\<rparr>,
      \<lparr>file_name = js ''diagram.svg'', file_path = js ''d.svg''\<rparr>,
      \<lparr>file_name = js ''c.gif'', file_path = js ''c.gif''\<rparr>]"

text \<open>The plugin as \<^verbatim>\<open>onload\<close> leaves it, with the default scale.\<close>

definition idle :: plugin where
  "idle = \<lparr>touchTime = 0, targetImage = None, svgToPngScale = 4\<rparr>"

section \<open>Lemmas on the string operations\<close>

lemma split_js_not_Nil: "split_js sep s \<noteq> []"
  by (induction s) (auto split: list.splits)

lemma hd_split_js: "hd (split_js sep s) = takeWhile (\<lambda>c. c \<noteq> sep) s"
  by (induction s) (auto split: list.splits simp: split_js_not_Nil)

lemma includes_js_single: "includes_js f [c] = (c \<in> set f)"
  by (induction f) auto

lemma takeWhile_no_sep: "c \<notin> set f \<Longrightarrow> takeWhile (\<lambda>x. x \<noteq> c) f = f"
  by (induction f) auto

lemma js_single: "js [c] = [cu c]"
  by (simp add: js_def)

lemma fileNane_takeWhile:
  "fileNane line = takeWhile (\<lambda>c. c \<noteq> cu CHR ''|'') (replaceEmbed line)"
  unfolding fileNane_def Let_def js_single includes_js_single hd_split_js
  by (simp add: takeWhile_no_sep)

subsection \<open>The regular expression on a single line\<close>

lemma dropWhile_dot_singleLine: "singleLine s \<Longrightarrow> dropWhile dot s = []"
  by (induction s) (auto simp: singleLine_def)

lemma singleLine_drop: "singleLine s \<Longrightarrow> singleLine (drop n s)"
  unfolding singleLine_def list_all_iff by (auto dest: in_set_dropD)

lemma lazyGroup_singleLine:
  "singleLine s \<Longrightarrow> lazyGroup s = map_option (\<lambda>b. (b, [])) (upToClose s)"
proof (induction s)
  case Nil
  then show ?case by simp
next
  case (Cons c cs)
  then have sl: "singleLine cs" and d: "dot c"
    by (auto simp: singleLine_def)
  show ?case
  proof (cases "startsWith (c # cs) (js '']]'')")
    case True
    have "dropWhile dot (drop 2 (c # cs)) = []"
      by (rule dropWhile_dot_singleLine) (rule singleLine_drop, rule Cons.prems)
    with True show ?thesis by simp
  next
    case False
    with d Cons.IH[OF sl] show ?thesis
      by (auto split: option.splits)
  qed
qed

lemma embedHere_singleLine:
  "singleLine s \<Longrightarrow> embedHere s = map_option (\<lambda>b. (b, [])) (embedAt s)"
  by (simp add: embedHere_def embedAt_def lazyGroup_singleLine singleLine_drop)

text \<open>
  On a single line the greedy head of the expression ends at the last embed: the
  match covers the whole line, and its group is the text of that embed.
\<close>

lemma matchAt_singleLine:
  "singleLine s \<Longrightarrow>
   matchAt s = (if embeds s = [] then None else Some (last (embeds s), []))"
proof (induction s)
  case Nil
  then show ?case by (simp add: embedHere_def js_def)
next
  case (Cons c cs)
  then have sl: "singleLine cs" and d: "dot c"
    by (auto simp: singleLine_def)
  show ?case
    using Cons.IH[OF sl] d embedHere_singleLine[OF Cons.prems]
    by (auto split: option.splits)
qed

lemma replaceEmbed_last:
  "singleLine s \<Longrightarrow> embeds s \<noteq> [] \<Longrightarrow> replaceEmbed s = last (embeds s)"
  by (cases s) (simp_all add: matchAt_singleLine del: matchAt.simps embeds.simps)

section \<open>Running the handlers on given inputs\<close>

text \<open>The defining equations that the simplifier unfolds to run a handler.\<close>

lemmas model_defs =
  effects_def unhandled_def handleTouchStart_def handleTouchMove_def touchCheck_def
  handleMenuOption_def catchNotice_def trySetFocus_def waitForFocus_def
  handleCommand_def forEachFile_def commandCallback_def callbackStart_def
  callbackRest_def notAnImage_def supported_def js_def cu_def
  extension_def fileNane_def embedHere_def embedAt_def singleLine_def dot_def
  isLineTerminator_def copyImageToClipboard_def copySvgToClipboard_def
  copyNonPngToClipboard_def copyPngToClipboard_def canvasSide_def Let_def
  browser_def vault_def idle_def pngBlob_def jpegBlob_def svgBlob_def

section \<open>What reaches the clipboard\<close>

lemma copyPng_write: "ClipboardWrite b \<in> set (fst (copyPngToClipboard e x)) \<Longrightarrow> b = x"
  by (simp add: copyPngToClipboard_def split: if_splits)

lemma copyNonPng_write:
  "ClipboardWrite b \<in> set (fst (copyNonPngToClipboard e x)) \<Longrightarrow> blob_type b = js ''image/png''"
  by (auto simp: copyNonPngToClipboard_def Let_def split: sum.splits dest!: copyPng_write)

lemma copySvg_write:
  "ClipboardWrite b \<in> set (fst (copySvgToClipboard e s x)) \<Longrightarrow> blob_type b = js ''image/png''"
  by (auto simp: copySvgToClipboard_def Let_def
      split: sum.splits option.splits if_splits dest!: copyPng_write)

lemma copyImage_write:
  "ClipboardWrite b \<in> set (fst (copyImageToClipboard e s evt t)) \<Longrightarrow>
   blob_type b = js ''image/png''"
  by (auto simp: copyImageToClipboard_def Let_def
      split: sum.splits option.splits if_splits
      dest: copyPng_write copySvg_write copyNonPng_write)

lemma callbackStart_write: "ClipboardWrite b \<notin> set (callbackStart e name file)"
  by (simp add: callbackStart_def Let_def)

lemma callbackRest_write:
  "ClipboardWrite b \<in> set (fst (callbackRest e name file)) \<Longrightarrow>
   blob_type b = js ''image/png''"
  by (auto simp: callbackRest_def Let_def split: sum.splits if_splits
      dest: copyPng_write copyNonPng_write)

lemma handleCommand_write:
  "ClipboardWrite b \<in> set (fst (handleCommand e line files)) \<Longrightarrow>
   blob_type b = js ''image/png''"
  by (auto simp: handleCommand_def forEachFile_def notAnImage_def callbackStart_write
      split: if_splits dest: callbackRest_write)

lemma catchNotice_set:
  "set (fst (catchNotice t err)) = insert (Notice (case err of Error m \<Rightarrow> m)) (set t)"
  by (cases err) (simp add: catchNotice_def)

lemma trySetFocus_write: "ClipboardWrite b \<notin> set (fst (trySetFocus e))"
  by (simp add: trySetFocus_def)

lemma waitForFocus_write: "ClipboardWrite b \<notin> set (fst (waitForFocus e q))"
  by (simp add: waitForFocus_def)

lemma handleMenuOption_write:
  assumes "ClipboardWrite b \<in> set (fst (handleMenuOption e p))"
  shows "blob_type b = js ''image/png''"
proof -
  from assms have "ClipboardWrite b
      \<in> set (fst (copyImageToClipboard e (svgToPngScale p) None (targetImage p)))"
    using trySetFocus_write[of b e] waitForFocus_write[of b e 1]
    by (auto simp: handleMenuOption_def Let_def catchNotice_set
        split: prod.splits option.splits)
  then show ?thesis by (rule copyImage_write)
qed

lemma touchCheck_write:
  "ClipboardWrite b \<in> set (fst (touchCheck e p evt)) \<Longrightarrow> blob_type b = js ''image/png''"
  using copyImage_write[of b e "svgToPngScale p" "Some evt" None]
  by (auto simp: touchCheck_def split: if_splits prod.splits option.splits)

lemma step_write:
  "ClipboardWrite b \<in> set (fst (snd (step e p i))) \<Longrightarrow> blob_type b = js ''image/png''"
  by (cases i) (auto dest: touchCheck_write handleMenuOption_write handleCommand_write)

lemma effects_run_Cons:
  "effects (run e p (i # rest)) =
   fst (snd (step e p i)) @ effects (run e (fst (step e p i)) rest)"
  by (simp add: effects_def split: prod.splits)

text \<open>
  Claim C1. Whatever the host asks of the plugin, in any order and in any browser
  (the command, the menu entry, the check of a touch), every blob that is handed to
  the clipboard write has the declared content type \<^verbatim>\<open>image/png\<close>: a fetched blob of
  another type is first turned into a blob of that type, by Jimp or by the canvas.
\<close>

theorem clipboard_receives_png:
  "ClipboardWrite b \<in> set (effects (run e p inputs)) \<Longrightarrow> blob_type b = js ''image/png''"
proof (induction inputs arbitrary: p)
  case Nil
  then show ?case by (simp add: effects_def)
next
  case (Cons i rest)
  then show ?case
    unfolding effects_run_Cons by (auto dest: step_write)
qed

text \<open>
  An SVG copied from the menu, a JPEG copied by a long touch and a JPEG copied by
  the command: the blob that the canvas gave is among the clipboard writes.
\<close>

theorem clipboard_receives_png_witness:
  "ClipboardWrite \<lparr>blob_type = js ''image/png'', blob_bytes = [137, 80, 78, 71, 2]\<rparr>
     \<in> set (effects (run browser idle
          [ContextMenu (Img \<lparr>src = js ''app://d.svg''\<rparr>), MenuClick,
           TouchStart (Img \<lparr>src = js ''app://b.jpg''\<rparr>) 5, Timeout \<lparr>src = js ''app://b.jpg''\<rparr>,
           Command (js ''![[b.jpg]]'') vault]))
   \<and> blob_type \<lparr>blob_type = js ''image/png'', blob_bytes = [137, 80, 78, 71, 2]\<rparr>
       = js ''image/png''"
proof -
  have h: "ClipboardWrite \<lparr>blob_type = js ''image/png'', blob_bytes = [137, 80, 78, 71, 2]\<rparr>
     \<in> set (effects (run browser idle
          [ContextMenu (Img \<lparr>src = js ''app://d.svg''\<rparr>), MenuClick,
           TouchStart (Img \<lparr>src = js ''app://b.jpg''\<rparr>) 5, Timeout \<lparr>src = js ''app://b.jpg''\<rparr>,
           Command (js ''![[b.jpg]]'') vault]))"
    by (simp add: model_defs)
  show ?thesis
    using h clipboard_receives_png[OF h] by simp
qed

section \<open>The PNG path\<close>

lemma clipboardWrites_copyPng: "clipboardWrites (fst (copyPngToClipboard e b)) = [b]"
  by (simp add: copyPngToClipboard_def)

text \<open>
  Claim C2. A fetched blob whose declared content type is \<^verbatim>\<open>image/png\<close> is handed
  to the clipboard as it is, the same type and the same bytes, and nothing else is:
  at the dispatch of \<^verbatim>\<open>copyImageToClipboard\<close>, for the target of an event and for the
  image passed beside it, and at the dispatch of the command's callback.
\<close>

theorem png_blob_untouched:
  "blob_type b = js ''image/png'' \<Longrightarrow>
   (fetch e (src target) = Inr b \<longrightarrow>
      clipboardWrites (fst (copyImageToClipboard e scale (Some target) other)) = [b] \<and>
      clipboardWrites (fst (copyImageToClipboard e scale None (Some target))) = [b]) \<and>
   (file_name file = name \<and> fetch e (getResourcePath e (file_path file)) = Inr b \<longrightarrow>
      clipboardWrites (fst (commandCallback e name file)) = [b])"
  by (simp add: copyImageToClipboard_def commandCallback_def callbackStart_def
      callbackRest_def Let_def clipboardWrites_copyPng)

text \<open>
  The PNG of the vault, fetched for an image element and for the file \<^verbatim>\<open>a.png\<close>.
\<close>

theorem png_blob_untouched_witness:
  "blob_type pngBlob = js ''image/png'' \<and>
   fetch browser (src \<lparr>src = js ''app://a.png''\<rparr>) = Inr pngBlob \<and>
   clipboardWrites (fst (copyImageToClipboard browser 4 (Some \<lparr>src = js ''app://a.png''\<rparr>) None)) = [pngBlob] \<and>
   clipboardWrites (fst (copyImageToClipboard browser 4 None (Some \<lparr>src = js ''app://a.png''\<rparr>))) = [pngBlob] \<and>
   file_name \<lparr>file_name = js ''a.png'', file_path = js ''a.png''\<rparr> = js ''a.png'' \<and>
   fetch browser (getResourcePath browser (file_path \<lparr>file_name = js ''a.png'', file_path = js ''a.png''\<rparr>)) = Inr pngBlob \<and>
   clipboardWrites (fst (commandCallback browser (js ''a.png'') \<lparr>file_name = js ''a.png'', file_path = js ''a.png''\<rparr>)) = [pngBlob]"
proof -
  have t: "blob_type pngBlob = js ''image/png''"
    by (simp add: pngBlob_def)
  have f: "fetch browser (src \<lparr>src = js ''app://a.png''\<rparr>) = Inr pngBlob"
    by (simp add: browser_def)
  have g: "file_name \<lparr>file_name = js ''a.png'', file_path = js ''a.png''\<rparr> = js ''a.png'' \<and>
    fetch browser (getResourcePath browser (file_path \<lparr>file_name = js ''a.png'', file_path = js ''a.png''\<rparr>)) = Inr pngBlob"
    by (simp add: browser_def js_def cu_def)
  show ?thesis
    using t f g
      png_blob_untouched[OF t, of browser "\<lparr>src = js ''app://a.png''\<rparr>" 4 None
        "\<lparr>file_name = js ''a.png'', file_path = js ''a.png''\<rparr>" "(js ''a.png'')"]
    by simp
qed

section \<open>The canvas of the SVG path\<close>

text \<open>
  Claim C3. When the image of an SVG blob loads with width \<open>w\<close> and height \<open>h\<close>,
  \<^verbatim>\<open>copySvgToClipboard\<close> with the scale \<open>s\<close> sets up one canvas, of width \<open>w * s\<close> and
  height \<open>h * s\<close>, where a width or a height of 0 counts as 300.
\<close>

theorem svg_canvas_size:
  "imageLoad e (createObjectURL e b) = Some (w, h) \<Longrightarrow>
   canvases (fst (copySvgToClipboard e s b)) =
     [((if w = 0 then 300 else w) * s, (if h = 0 then 300 else h) * s)]"
  by (auto simp: copySvgToClipboard_def Let_def canvasSide_def copyPngToClipboard_def
      split: sum.splits option.splits)

text \<open>
  With the scale 4, no intrinsic size gives a canvas of 1200 by 1200, and the size
  100 by 100 gives one of 400 by 400.
\<close>

theorem svg_canvas_size_witness:
  "imageLoad browser (createObjectURL browser svgBlob) = Some (0, 0) \<and>
   canvases (fst (copySvgToClipboard browser 4 svgBlob)) = [(1200, 1200)] \<and>
   imageLoad (browser\<lparr>imageLoad := \<lambda>url. Some (100, 100)\<rparr>)
     (createObjectURL (browser\<lparr>imageLoad := \<lambda>url. Some (100, 100)\<rparr>) svgBlob) = Some (100, 100) \<and>
   canvases (fst (copySvgToClipboard (browser\<lparr>imageLoad := \<lambda>url. Some (100, 100)\<rparr>) 4 svgBlob))
     = [(400, 400)]"
proof -
  have a: "imageLoad browser (createObjectURL browser svgBlob) = Some (0, 0)"
    by (simp add: browser_def svgBlob_def js_def cu_def)
  have b: "imageLoad (browser\<lparr>imageLoad := \<lambda>url. Some (100, 100)\<rparr>)
     (createObjectURL (browser\<lparr>imageLoad := \<lambda>url. Some (100, 100)\<rparr>) svgBlob) = Some (100, 100)"
    by simp
  show ?thesis
    using a b svg_canvas_size[OF a, of 4] svg_canvas_size[OF b, of 4] by simp
qed

section \<open>Resolving the line of the cursor\<close>

text \<open>
  Claim C4. When the extension of the name that the command takes from the line is
  not one of \<^verbatim>\<open>bmp\<close>, \<^verbatim>\<open>gif\<close>, \<^verbatim>\<open>jpeg\<close>, \<^verbatim>\<open>jpg\<close>, \<^verbatim>\<open>png\<close>, \<^verbatim>\<open>tiff\<close>, compared as
  written, the command shows the notice "Not an image file or not supported..." and
  does nothing else: no file is looked up, nothing is fetched, nothing is copied.
\<close>

theorem unsupported_extension_rejected:
  "extension (fileNane line) \<notin> set supported \<Longrightarrow>
   handleCommand e line files = ([notAnImage], [])"
  by (simp add: handleCommand_def)

text \<open>
  The line of the specification, with a file \<^verbatim>\<open>diagram.svg\<close> in the vault, and a
  line whose extension differs from \<^verbatim>\<open>png\<close> in case only.
\<close>

theorem unsupported_extension_rejected_witness:
  "extension (fileNane (js ''Some text ![[diagram.svg|50]] more text'')) \<notin> set supported \<and>
   handleCommand browser (js ''Some text ![[diagram.svg|50]] more text'') vault = ([notAnImage], []) \<and>
   extension (fileNane (js ''![[a.PNG]]'')) \<notin> set supported \<and>
   handleCommand browser (js ''![[a.PNG]]'') vault = ([notAnImage], [])"
proof -
  have a: "extension (fileNane (js ''Some text ![[diagram.svg|50]] more text'')) \<notin> set supported"
    by (simp add: model_defs)
  have b: "extension (fileNane (js ''![[a.PNG]]'')) \<notin> set supported"
    by (simp add: model_defs)
  show ?thesis
    using a b unsupported_extension_rejected[OF a, of browser vault]
      unsupported_extension_rejected[OF b, of browser vault]
    by simp
qed

text \<open>
  Claim C5, amended. On a line of the editor that holds no line terminator (an
  editor line has no line feed and no carriage return, so this rules out U+2028 and
  U+2029) and one embed, \<^verbatim>\<open>![[name.ext]]\<close> or \<^verbatim>\<open>![[name.ext|alias]]\<close>, with any text
  around it, the name the command takes is the text between \<^verbatim>\<open>![[\<close> and \<^verbatim>\<open>]]\<close> up
  to its first \<^verbatim>\<open>|\<close>.
\<close>

theorem single_embed_name:
  "singleLine line \<Longrightarrow> embeds line = [inner] \<Longrightarrow>
   fileNane line = takeWhile (\<lambda>c. c \<noteq> cu CHR ''|'') inner"
  by (simp add: fileNane_takeWhile replaceEmbed_last)

text \<open>
  An embed with an alias in the middle of a line, and a line that is one embed
  without alias, its name beginning with the code unit U+56FE.
\<close>

theorem single_embed_name_witness:
  "singleLine (js ''see ![[photo.png|200]] here'') \<and>
   embeds (js ''see ![[photo.png|200]] here'') = [js ''photo.png|200''] \<and>
   fileNane (js ''see ![[photo.png|200]] here'') = js ''photo.png'' \<and>
   singleLine (js ''![['' @ [0x56FE] @ js ''.tiff]]'') \<and>
   embeds (js ''![['' @ [0x56FE] @ js ''.tiff]]'') = [0x56FE # js ''.tiff''] \<and>
   fileNane (js ''![['' @ [0x56FE] @ js ''.tiff]]'') = 0x56FE # js ''.tiff''"
proof -
  have a: "singleLine (js ''see ![[photo.png|200]] here'')"
    by (simp add: model_defs)
  have b: "embeds (js ''see ![[photo.png|200]] here'') = [js ''photo.png|200'']"
    by (simp add: model_defs)
  have c: "singleLine (js ''![['' @ [0x56FE] @ js ''.tiff]]'')"
    by (simp add: model_defs)
  have d: "embeds (js ''![['' @ [0x56FE] @ js ''.tiff]]'') = [0x56FE # js ''.tiff'']"
    by (simp add: model_defs)
  show ?thesis
    using a b c d single_embed_name[OF a b] single_embed_name[OF c d]
    by (simp add: js_def cu_def)
qed

text \<open>
  Claim C5 as it is stated fails on a line that holds the line separator U+2028,
  which the dot of the regular expression does not match. In the line
  \<^verbatim>\<open>![[a\<close> U+2028 \<^verbatim>\<open>b.png]]\<close> the one embed has the separator in its name: the group
  cannot run over it, nothing matches and the whole line comes back. In the line
  \<^verbatim>\<open>a\<close> U+2028 \<^verbatim>\<open>![[\<close> U+56FE \<^verbatim>\<open>.png]]\<close> the match begins behind the separator, and
  what stands before it stays in front of the name.
\<close>

theorem single_embed_with_line_separator:
  "embeds (js ''![[a'' @ [0x2028] @ js ''b.png]]'') = [js ''a'' @ [0x2028] @ js ''b.png''] \<and>
   fileNane (js ''![[a'' @ [0x2028] @ js ''b.png]]'') = js ''![[a'' @ [0x2028] @ js ''b.png]]'' \<and>
   fileNane (js ''![[a'' @ [0x2028] @ js ''b.png]]'') \<noteq> js ''a'' @ [0x2028] @ js ''b.png'' \<and>
   embeds (js ''a'' @ [0x2028] @ js ''![['' @ [0x56FE] @ js ''.png]]'') = [0x56FE # js ''.png''] \<and>
   fileNane (js ''a'' @ [0x2028] @ js ''![['' @ [0x56FE] @ js ''.png]]'')
     = js ''a'' @ [0x2028, 0x56FE] @ js ''.png'' \<and>
   fileNane (js ''a'' @ [0x2028] @ js ''![['' @ [0x56FE] @ js ''.png]]'') \<noteq> 0x56FE # js ''.png''"
  by (simp add: model_defs)

text \<open>
  Claim C10, amended. On a line of the editor that holds no line terminator (an
  editor line has no line feed and no carriage return, so this rules out U+2028 and
  U+2029) and more than one embed, the name the command takes is that of the last
  embed of the line: the greedy head of the regular expression runs over the embeds
  before it.
\<close>

theorem last_embed_wins:
  "singleLine line \<Longrightarrow> 1 < length (embeds line) \<Longrightarrow>
   fileNane line = takeWhile (\<lambda>c. c \<noteq> cu CHR ''|'') (last (embeds line))"
proof -
  assume s: "singleLine line" and n: "1 < length (embeds line)"
  from n have "embeds line \<noteq> []" by auto
  with s show ?thesis by (simp add: fileNane_takeWhile replaceEmbed_last)
qed

text \<open>
  Two embeds on a line: the name is that of the second.
\<close>

theorem last_embed_wins_witness:
  "singleLine (js ''![[a.png]] and ![[b.jpg|9]]'') \<and>
   1 < length (embeds (js ''![[a.png]] and ![[b.jpg|9]]'')) \<and>
   embeds (js ''![[a.png]] and ![[b.jpg|9]]'') = [js ''a.png'', js ''b.jpg|9''] \<and>
   fileNane (js ''![[a.png]] and ![[b.jpg|9]]'') = js ''b.jpg''"
proof -
  have a: "singleLine (js ''![[a.png]] and ![[b.jpg|9]]'')"
    by (simp add: model_defs)
  have b: "embeds (js ''![[a.png]] and ![[b.jpg|9]]'') = [js ''a.png'', js ''b.jpg|9'']"
    by (simp add: model_defs)
  have c: "1 < length (embeds (js ''![[a.png]] and ![[b.jpg|9]]''))"
    by (simp only: b) simp
  show ?thesis
    using a b c last_embed_wins[OF a c] by (simp add: js_def cu_def)
qed

text \<open>
  Claim C10 as it is stated fails on a line that holds the line separator U+2028
  between two embeds: the greedy head cannot run over the separator, so the match
  is the first embed with what stands before the separator, and the second embed
  stays behind the name.
\<close>

theorem first_embed_before_line_separator:
  "embeds (js ''![[a.png]]'' @ [0x2028] @ js ''![[b.png]]'') = [js ''a.png'', js ''b.png''] \<and>
   fileNane (js ''![[a.png]]'' @ [0x2028] @ js ''![[b.png]]'')
     = js ''a.png'' @ [0x2028] @ js ''![[b.png]]'' \<and>
   fileNane (js ''![[a.png]]'' @ [0x2028] @ js ''![[b.png]]'') \<noteq> js ''b.png''"
  by (simp add: model_defs)

text \<open>
  Claim C7. The extension of \<^verbatim>\<open>missing.png\<close> is supported and no file of the vault has
  that name: the command ends with no notice and no other effect, where the four
  checks before the search each show "Not an image file or not supported...".
\<close>

theorem missing_file_is_silent:
  "handleCommand browser (js ''![[missing.png]]'') vault = ([], [])"
  by (simp add: model_defs)

section \<open>The long touch\<close>

lemma touchTime_handleContextMenu: "touchTime (handleContextMenu p x) = touchTime p"
  by (cases x) simp_all

lemma touchTime_step:
  "touchTime (fst (step e p i)) =
     (case i of
        TouchStart evt now \<Rightarrow> if isImage evt then now else touchTime p
      | TouchMove evt \<Rightarrow> if isImage evt then 0 else touchTime p
      | _ \<Rightarrow> touchTime p)"
  by (cases i)
    (simp_all add: handleTouchStart_def handleTouchMove_def touchTime_handleContextMenu)

lemma fst_run_Cons: "fst (run e p (i # rest)) = fst (run e (fst (step e p i)) rest)"
  by (simp split: prod.splits)

lemma fst_run_append: "fst (run e p (xs @ ys)) = fst (run e (fst (run e p xs)) ys)"
proof (induction xs arbitrary: p)
  case Nil
  show ?case by simp
next
  case (Cons i xs)
  show ?case
    unfolding append_Cons fst_run_Cons by (rule Cons.IH)
qed

lemma touchTime_stays_zero:
  "\<forall>i \<in> set after. \<not> touchesImage i \<Longrightarrow> touchTime p = 0 \<Longrightarrow>
   touchTime (fst (run e p after)) = 0"
proof (induction after arbitrary: p)
  case Nil
  then show ?case by simp
next
  case (Cons i rest)
  from Cons.prems have "touchTime (fst (step e p i)) = 0"
    unfolding touchTime_step by (cases i) simp_all
  with Cons show ?case
    unfolding fst_run_Cons by simp
qed

lemma touchCheck_zero: "touchTime p = 0 \<Longrightarrow> touchCheck e p evt = ([], [])"
  by (simp add: touchCheck_def)

text \<open>
  Claim C9, amended. A touch begins on an image; later a touch moves on an image,
  which sets the stored time to 0; if from then on no touch begins on an image, the
  check that the first touch asked for finds the time 0 and has no effect at all:
  nothing is fetched and nothing is copied.
\<close>

theorem touch_move_suppresses_copy:
  assumes "\<not> list_ex touchesImage after"
  shows "snd (step e
            (fst (run e p (TouchStart (Img a) now # before @ TouchMove (Img m) # after)))
            (Timeout a)) = ([], [])"
proof -
  let ?q = "fst (run e p (TouchStart (Img a) now # before))"
  have "fst (run e p (TouchStart (Img a) now # before @ TouchMove (Img m) # after))
        = fst (run e (fst (step e ?q (TouchMove (Img m)))) after)"
    using fst_run_append[of e p "TouchStart (Img a) now # before" "TouchMove (Img m) # after"]
    by (simp only: append_Cons fst_run_Cons)
  moreover have "touchTime (fst (step e ?q (TouchMove (Img m)))) = 0"
    unfolding touchTime_step by simp
  ultimately have "touchTime
      (fst (run e p (TouchStart (Img a) now # before @ TouchMove (Img m) # after))) = 0"
    using touchTime_stays_zero[of after] assms by (simp add: list_ex_iff)
  then show ?thesis by (simp add: touchCheck_zero)
qed

text \<open>
  A touch on an image, a move elsewhere, a move on the image, then the context
  menu and a touch that begins off any image.
\<close>

theorem touch_move_suppresses_copy_witness:
  "\<not> list_ex touchesImage [ContextMenu Other, TouchStart Other 9] \<and>
   snd (step browser
          (fst (run browser idle
             (TouchStart (Img \<lparr>src = js ''app://a.png''\<rparr>) 5 # [TouchMove Other] @
              TouchMove (Img \<lparr>src = js ''app://a.png''\<rparr>) # [ContextMenu Other, TouchStart Other 9])))
          (Timeout \<lparr>src = js ''app://a.png''\<rparr>)) = ([], [])"
proof -
  have h: "\<not> list_ex touchesImage [ContextMenu Other, TouchStart Other 9]"
    by simp
  show ?thesis
    using h touch_move_suppresses_copy[OF h, of browser idle "\<lparr>src = js ''app://a.png''\<rparr>" 5
        "[TouchMove Other]" "\<lparr>src = js ''app://a.png''\<rparr>"]
    by simp
qed

text \<open>
  Claim C9 as it is stated fails: the plugin has one stored time for all touches.
  A touch begins on an image and moves; a second touch begins on an image before
  the check of the first comes due. That check finds the time of the second touch
  and copies the image of the first.
\<close>

theorem touch_move_then_second_touch_copies:
  "snd (step browser
          (fst (run browser idle
             [TouchStart (Img \<lparr>src = js ''app://a.png''\<rparr>) 5,
              TouchMove (Img \<lparr>src = js ''app://a.png''\<rparr>),
              TouchStart (Img \<lparr>src = js ''app://b.jpg''\<rparr>) 7]))
          (Timeout \<lparr>src = js ''app://a.png''\<rparr>))
   = ([Notice (js ''Copying the image...''), Fetch (js ''app://a.png''),
       ClipboardWrite \<lparr>blob_type = js ''image/png'', blob_bytes = [137, 80, 78, 71]\<rparr>,
       Notice (js ''Image copied to clipboard!'')], [])"
  by (simp add: model_defs)

section \<open>Failures\<close>

text \<open>
  Claim C6. A fetch that is rejected: in the check of a long touch and in the
  command nothing catches the rejection and no notice tells of it, while the menu
  entry, whose handler has a \<^verbatim>\<open>try\<close>, shows the message.
\<close>

theorem touch_and_command_leave_rejections:
  "snd (run browser idle
          [TouchStart (Img \<lparr>src = js ''app://gone.png''\<rparr>) 5, Timeout \<lparr>src = js ''app://gone.png''\<rparr>])
     = ([Notice (js ''Copying the image...''), Fetch (js ''app://gone.png'')], [Error (js ''Failed to fetch'')]) \<and>
   snd (run browser idle [Command (js ''![[c.gif]]'') vault])
     = ([Notice (js ''Copying the image...''), Fetch (js ''app://c.gif'')], [Error (js ''Failed to fetch'')]) \<and>
   snd (run browser idle [ContextMenu (Img \<lparr>src = js ''app://gone.png''\<rparr>), MenuClick])
     = ([Notice (js ''Copying the image...''), Fetch (js ''app://gone.png''), Notice (js ''Failed to fetch'')], [])"
  by (simp add: model_defs)

text \<open>
  Claim C8. The object URL of the SVG path is revoked in the callback of
  \<^verbatim>\<open>toBlob\<close> alone. When the image does not load, and when the canvas gives no
  context, the method ends before that callback is set up and the URL it created
  stays; when the canvas cannot be encoded the callback runs and the URL is revoked.
\<close>

theorem svg_url_not_revoked:
  "copySvgToClipboard (browser\<lparr>imageLoad := \<lambda>url. None\<rparr>) 4 svgBlob
     = ([UrlCreated (js ''blob:image/svg+xml''),
         Notice (js ''Failed to load SVG image for conversion.''),
         Notice (js ''Error during SVG to PNG conversion.'')], None) \<and>
   copySvgToClipboard (browser\<lparr>getContext := False\<rparr>) 4 svgBlob
     = ([UrlCreated (js ''blob:image/svg+xml''), Canvas 1200 1200,
         Notice (js ''Could not create canvas context.'')], None) \<and>
   copySvgToClipboard (browser\<lparr>toBlob := \<lambda>url w h. Inr None\<rparr>) 4 svgBlob
     = ([UrlCreated (js ''blob:image/svg+xml''), Canvas 1200 1200, DrawImage 1200 1200,
         Notice (js ''Failed to convert SVG to PNG.''), UrlRevoked (js ''blob:image/svg+xml'')], None)"
  by (simp add: model_defs)

end
